theory Spec2Isabelle
  imports Complex_Main
begin

section \<open>The chat send button (ButtonSendWrapper)\<close>

text \<open>
  The component receives \<open>lockChat\<close>, \<open>noInput\<close>, \<open>chatValue\<close> and the list of attached
  files; \<open>send\<close> is a callback of the parent and \<open>stopBuilding\<close>, \<open>isBuilding\<close> come from
  the flow store. Of a file preview only the \<open>loading\<close> flag is read; its other fields
  stay in the extension part of the record.
\<close>

record FilePreviewType =
  loading :: bool

record 'a ButtonSendWrapperProps =
  lockChat :: bool
  noInput :: bool
  chatValue :: string
  files :: "'a FilePreviewType_scheme list"

text \<open>\<open>files.some((file) => file.loading)\<close>\<close>

definition some_loading :: "'a FilePreviewType_scheme list \<Rightarrow> bool" where
  "some_loading fs = list_ex loading fs"

definition showStopButton :: "'a ButtonSendWrapperProps \<Rightarrow> bool" where
  "showStopButton p = (lockChat p \<or> some_loading (files p))"

definition showPlayButton :: "'a ButtonSendWrapperProps \<Rightarrow> bool" where
  "showPlayButton p = (\<not> lockChat p \<and> noInput p)"

definition showSendButton :: "'a ButtonSendWrapperProps \<Rightarrow> bool" where
  "showSendButton p = (\<not> (lockChat p \<or> some_loading (files p)) \<and> \<not> noInput p)"

text \<open>
  The callbacks a click can invoke. \<open>handleClick\<close> returns the calls it makes, in order.
\<close>

datatype click_call = Send | StopBuilding

definition handleClick :: "'a ButtonSendWrapperProps \<Rightarrow> bool \<Rightarrow> click_call list" where
  "handleClick p isBuilding =
     (if \<not> showStopButton p then [Send]
      else if showStopButton p \<and> isBuilding then [StopBuilding]
      else [])"

text \<open>The \<open>disabled\<close> attribute of the button: \<open>lockChat && !isBuilding\<close>.\<close>

definition button_disabled :: "'a ButtonSendWrapperProps \<Rightarrow> bool \<Rightarrow> bool" where
  "button_disabled p isBuilding = (lockChat p \<and> \<not> isBuilding)"

text \<open>
  The three \<open>Case\<close> blocks of the button, in source order; a \<open>Case\<close> renders its child
  when its condition holds.
\<close>

datatype send_icon = Square | Zap | LucideSend

definition rendered_icons :: "'a ButtonSendWrapperProps \<Rightarrow> send_icon list" where
  "rendered_icons p =
     (if showStopButton p then [Square] else []) @
     (if showPlayButton p then [Zap] else []) @
     (if showSendButton p then [LucideSend] else [])"

text \<open>\<open>getConditionalClasses\<close>: the first matching state wins.\<close>

datatype button_state = NO_INPUT | HAS_CHAT_VALUE | SHOW_STOP | DEFAULT

definition getConditionalClasses :: "'a ButtonSendWrapperProps \<Rightarrow> button_state" where
  "getConditionalClasses p =
     (if noInput p then NO_INPUT
      else if chatValue p \<noteq> [] then HAS_CHAT_VALUE
      else if showStopButton p then SHOW_STOP
      else DEFAULT)"

section \<open>The flows query hook (useGetRefreshFlows)\<close>

subsection \<open>Numbers, their rendering, and form-urlencoding\<close>

text \<open>
  A JavaScript number is \<open>NaN\<close>, one of the two infinities, or a finite value.
  Comparison, \<open>Math.min\<close> and \<open>Math.max\<close> are exact on finite values, so a finite value
  is modelled as a real. \<open>Number.prototype.toString\<close> belongs to the runtime: it is a
  parameter, named \<open>toString\<close>, of every function below that calls it.
\<close>

datatype jsnum = NaN | Fin real | PosInfinity | NegInfinity

text \<open>The truthiness of a number: \<open>0\<close> and \<open>NaN\<close> are falsy, every other number is truthy.\<close>

definition truthy_jsnum :: "jsnum \<Rightarrow> bool" where
  "truthy_jsnum n =
     (case n of
        NaN \<Rightarrow> False
      | Fin x \<Rightarrow> x \<noteq> 0
      | PosInfinity \<Rightarrow> True
      | NegInfinity \<Rightarrow> True)"

text \<open>
  The decimal digits of a natural number: the property name under which an array or a
  string holds its element of that index.
\<close>

definition digit_char :: "nat \<Rightarrow> char" where
  "digit_char d = ''0123456789'' ! d"

fun show_nat :: "nat \<Rightarrow> string" where
  "show_nat n =
     (if n < 10 then [digit_char n] else show_nat (n div 10) @ [digit_char (n mod 10)])"

declare show_nat.simps [simp del]

text \<open>
  A sample value for the parameter \<open>toString\<close>, used in the closed examples only. It
  is what the runtime prints on \<open>NaN\<close>, on the infinities and on the integers of
  magnitude below \<open>2^53\<close>; on the other finite values, where the runtime prints the
  shortest digits that read back as the same double, it is the empty string, and no
  example applies it there.
\<close>

definition sample_toString :: "jsnum \<Rightarrow> string" where
  "sample_toString n =
     (case n of
        NaN \<Rightarrow> ''NaN''
      | PosInfinity \<Rightarrow> ''Infinity''
      | NegInfinity \<Rightarrow> ''-Infinity''
      | Fin x \<Rightarrow>
          (if x \<in> \<int> \<and> \<bar>x\<bar> < 2 ^ 53
           then (if x < 0 then CHR ''-'' # show_nat (nat \<lfloor>- x\<rfloor>) else show_nat (nat \<lfloor>x\<rfloor>))
           else []))"

text \<open>
  \<open>URLSearchParams.toString\<close> is the application/x-www-form-urlencoded serializer:
  names and values are byte-encoded (a \<open>string\<close> here is the UTF-8 byte sequence), ASCII
  letters and digits and \<open>* - . _\<close> stay, a space becomes \<open>+\<close>, every other byte becomes
  \<open>%XX\<close>; a pair is \<open>name=value\<close> and pairs are joined by \<open>&\<close>.
\<close>

definition hex_digit :: "nat \<Rightarrow> char" where
  "hex_digit d = ''0123456789ABCDEF'' ! d"

definition is_alnum :: "char \<Rightarrow> bool" where
  "is_alnum c =
     (let n = (of_char c :: nat)
      in (48 \<le> n \<and> n \<le> 57) \<or> (65 \<le> n \<and> n \<le> 90) \<or> (97 \<le> n \<and> n \<le> 122))"

definition urlencode_byte :: "char \<Rightarrow> string" where
  "urlencode_byte c =
     (if is_alnum c \<or> c \<in> set ''*-._'' then [c]
      else if c = CHR '' '' then ''+''
      else [CHR ''%'', hex_digit (of_char c div 16), hex_digit (of_char c mod 16)])"

definition urlencode :: "string \<Rightarrow> string" where
  "urlencode s = concat (map urlencode_byte s)"

type_synonym URLSearchParams = "(string \<times> string) list"

definition append_param :: "URLSearchParams \<Rightarrow> string \<Rightarrow> string \<Rightarrow> URLSearchParams" where
  "append_param q name v = q @ [(name, v)]"

fun serialize :: "URLSearchParams \<Rightarrow> string" where
  "serialize [] = []"
| "serialize [(k, v)] = urlencode k @ ''='' @ urlencode v"
| "serialize ((k, v) # rest) = urlencode k @ ''='' @ urlencode v @ ''&'' @ serialize rest"

subsection \<open>addQueryParams\<close>

text \<open>
  Every field of \<open>GetFlowsParams\<close> is optional (\<open>None\<close> is \<open>undefined\<close>). The source's
  field \<open>size\<close> is \<open>size_p\<close> here; \<open>page\<close> and \<open>size\<close> are numbers.
\<close>

record GetFlowsParams =
  components_only :: "bool option"
  get_all :: "bool option"
  header_flows :: "bool option"
  folder_id :: "string option"
  remove_example_flows :: "bool option"
  page :: "jsnum option"
  size_p :: "jsnum option"

text \<open>
  The truthiness \<open>if (params.x)\<close> tests: an absent field and \<open>false\<close>, the empty string,
  \<open>0\<close> and \<open>NaN\<close> are falsy.
\<close>

definition truthy_flag :: "bool option \<Rightarrow> bool" where
  "truthy_flag b = (b = Some True)"

definition truthy_string :: "string option \<Rightarrow> bool" where
  "truthy_string s = (case s of None \<Rightarrow> False | Some t \<Rightarrow> t \<noteq> [])"

definition truthy_number :: "jsnum option \<Rightarrow> bool" where
  "truthy_number n = (case n of None \<Rightarrow> False | Some k \<Rightarrow> truthy_jsnum k)"

text \<open>The \<open>URLSearchParams\<close> object after the seven conditional \<open>append\<close> calls.\<close>

definition query_params :: "(jsnum \<Rightarrow> string) \<Rightarrow> GetFlowsParams \<Rightarrow> URLSearchParams" where
  "query_params toString params =
     (let q0 = [];
          q1 = (if truthy_flag (components_only params)
                then append_param q0 ''components_only'' ''true'' else q0);
          q2 = (if truthy_flag (get_all params)
                then append_param q1 ''get_all'' ''true'' else q1);
          q3 = (if truthy_flag (header_flows params)
                then append_param q2 ''header_flows'' ''true'' else q2);
          q4 = (case folder_id params of
                  Some f \<Rightarrow> if f \<noteq> [] then append_param q3 ''folder_id'' f else q3
                | None \<Rightarrow> q3);
          q5 = (if truthy_flag (remove_example_flows params)
                then append_param q4 ''remove_example_flows'' ''true'' else q4);
          q6 = (case page params of
                  Some n \<Rightarrow> if truthy_jsnum n then append_param q5 ''page'' (toString n) else q5
                | None \<Rightarrow> q5);
          q7 = (case size_p params of
                  Some n \<Rightarrow> if truthy_jsnum n then append_param q6 ''size'' (toString n) else q6
                | None \<Rightarrow> q6)
      in q7)"

definition addQueryParams :: "(jsnum \<Rightarrow> string) \<Rightarrow> string \<Rightarrow> GetFlowsParams \<Rightarrow> string" where
  "addQueryParams toString url params =
     (let queryString = serialize (query_params toString params)
      in if queryString \<noteq> [] then url @ ''?'' @ queryString else url)"


subsection \<open>Requests, stores and failures\<close>

text \<open>
  A request either resolves with a value or is rejected with a reason (\<open>Inl\<close>); the
  outcome of each request is an input of the model, in the order the requests are made.
  A function's failure is a value: \<open>TypeError\<close> for a property read on \<open>undefined\<close>,
  \<open>Rejected e\<close> for a rejected request. The stores (\<open>alertStore\<close>, \<open>flowsManagerStore\<close>,
  \<open>typesStore\<close>, \<open>foldersStore\<close>), the router and the console are outside these
  sources: every call made to them, and every request sent, is recorded in order.
\<close>

datatype 'e failure = TypeError | Rejected 'e

text \<open>
  What the flows endpoint answers: a plain array of flows, a paginated envelope whose
  \<open>items\<close> are the flows, or nothing (\<open>null\<close>). Arrays and objects are truthy, also
  when empty.
\<close>

record 'f PaginatedFlowsType =
  items :: "'f list"

datatype ('f, 'm) flows_data =
  NoData | FlowArray "'f list" | Paginated "('f, 'm) PaginatedFlowsType_scheme"

definition truthy_data :: "('f, 'm) flows_data \<Rightarrow> bool" where
  "truthy_data d = (case d of NoData \<Rightarrow> False | _ \<Rightarrow> True)"

text \<open>
  The state of \<open>typesStore\<close> as far as the hook touches it: the object \<open>data\<close>, keyed by
  section name (\<open>store_data\<close> here), and \<open>ComponentFields\<close>.
\<close>

record ('d, 'c) types_state =
  store_data :: "string \<rightharpoonup> 'd"
  ComponentFields :: 'c

text \<open>The body of a folder creation request.\<close>

record folder_payload =
  payload_name :: string
  payload_description :: string
  flows_list :: "string list"
  components_list :: "string list"

datatype ('f, 't) api_call =
    ApiGet string
  | ApiPost string folder_payload
  | GetFoldersApi bool
  | TypesSetState "'t \<Rightarrow> 't"
  | SetFlows "'f list"
  | SetErrorData string
  | SetSuccessData string
  | Navigate string
  | ConsoleError
  | MutateDeleteFolder "string option"

text \<open>A call that puts an error title into the alert store, and a call that sends a request.\<close>

fun is_error_alert :: "('f, 't) api_call \<Rightarrow> bool" where
  "is_error_alert (SetErrorData title) = True"
| "is_error_alert _ = False"

fun is_request :: "('f, 't) api_call \<Rightarrow> bool" where
  "is_request (ApiGet url) = True"
| "is_request (ApiPost url body) = True"
| "is_request (GetFoldersApi refetch) = True"
| "is_request (MutateDeleteFolder fid) = True"
| "is_request _ = False"

subsection \<open>The refresh-flows mutation\<close>

text \<open>
  \<open>getRefreshFlowsFn\<close>: build the URL, send the request, return the response's data.
  \<open>flows_url\<close> is \<open>getURL("FLOWS")\<close>. The mutation calls it with \<open>params!\<close>, which may be
  \<open>undefined\<close>: reading a field of it inside \<open>addQueryParams\<close> then throws before any
  request is sent.
\<close>

definition getRefreshFlowsFn ::
  "(jsnum \<Rightarrow> string) \<Rightarrow> string \<Rightarrow> GetFlowsParams option \<Rightarrow> 'e + ('f, 'm) flows_data \<Rightarrow>
   ('e failure + ('f, 'm) flows_data) \<times> ('f, 't) api_call list" where
  "getRefreshFlowsFn toString flows_url params outcome =
     (case params of
        None \<Rightarrow> (Inl TypeError, [])
      | Some p \<Rightarrow>
          (case outcome of
             Inl e \<Rightarrow>
               (Inl (Rejected e), [ApiGet (addQueryParams toString (flows_url @ ''/'') p)])
           | Inr d \<Rightarrow> (Inr d, [ApiGet (addQueryParams toString (flows_url @ ''/'') p)])))"

text \<open>
  The updater handed to \<open>useTypesStore.setState\<close>; \<open>setState\<close> merges the returned
  fields into the state. \<open>extractFieldsFromComponenents\<close> is a parameter.
\<close>

definition saved_components_update ::
  "((string \<rightharpoonup> 'd) \<Rightarrow> 'c) \<Rightarrow> 'd \<Rightarrow>
   ('d, 'c, 'z) types_state_scheme \<Rightarrow> ('d, 'c, 'z) types_state_scheme" where
  "saved_components_update extractFieldsFromComponenents d state =
     state\<lparr>store_data := (store_data state)(''saved_components'' \<mapsto> d),
           ComponentFields :=
             extractFieldsFromComponenents ((store_data state)(''saved_components'' \<mapsto> d))\<rparr>"

text \<open>
  \<open>Array.isArray(dbDataFlows) ? dbDataFlows : dbDataFlows.items\<close>, reached only for a
  truthy \<open>dbDataFlows\<close>.
\<close>

definition flows_of :: "('f, 'm) flows_data \<Rightarrow> 'f list" where
  "flows_of d = (case d of FlowArray fs \<Rightarrow> fs | Paginated pg \<Rightarrow> items pg | NoData \<Rightarrow> [])"

definition components_params :: GetFlowsParams where
  "components_params =
     \<lparr>components_only = Some True, get_all = Some True, header_flows = None,
      folder_id = None, remove_example_flows = None, page = None, size_p = None\<rparr>"

text \<open>
  \<open>mutationFn\<close>. \<open>processFlows\<close> stands for \<open>processFlows(...).data\<close> and is a parameter,
  as are \<open>extractFieldsFromComponenents\<close> and the runtime's \<open>toString\<close>. The value the inner callback returns is
  dropped: on success the function returns the empty array. On any failure the
  \<open>catch\<close> block sets the error title and throws the error again.
\<close>

definition mutationFn ::
  "(jsnum \<Rightarrow> string) \<Rightarrow> (('f, 'm) flows_data \<Rightarrow> 'd) \<Rightarrow> ((string \<rightharpoonup> 'd) \<Rightarrow> 'c) \<Rightarrow>
   string \<Rightarrow> GetFlowsParams option \<Rightarrow> 'e + ('f, 'm) flows_data \<Rightarrow> 'e + ('f, 'm) flows_data \<Rightarrow>
   ('e failure + 'f list) \<times> ('f, ('d, 'c, 'z) types_state_scheme) api_call list" where
  "mutationFn toString processFlows extractFieldsFromComponenents flows_url params
       outcome1 outcome2 =
     (case getRefreshFlowsFn toString flows_url params outcome1 of
        (Inl e, calls1) \<Rightarrow>
          (Inl e, calls1 @ [SetErrorData ''Could not load flows from database''])
      | (Inr dbDataFlows, calls1) \<Rightarrow>
          (case getRefreshFlowsFn toString flows_url (Some components_params) outcome2 of
             (Inl e, calls2) \<Rightarrow>
               (Inl e, calls1 @ calls2 @ [SetErrorData ''Could not load flows from database''])
           | (Inr dbDataComponents, calls2) \<Rightarrow>
               (Inr [],
                calls1 @ calls2 @
                (if truthy_data dbDataComponents
                 then [TypesSetState
                         (saved_components_update extractFieldsFromComponenents
                            (processFlows dbDataComponents))]
                 else []) @
                (if truthy_data dbDataFlows then [SetFlows (flows_of dbDataFlows)] else []))))"

subsection \<open>The post-folders mutation\<close>

record AddFolderType =
  name :: string
  description :: string
  flows :: "string list option"
  components :: "string list option"

record 'a IPostAddFolders =
  folder_data :: "'a AddFolderType_scheme"

text \<open>
  \<open>addFoldersFn\<close> posts the payload, then awaits \<open>getFoldersApi(true)\<close>, then returns
  \<open>res.data\<close> (the resolved value of the post here). There is no \<open>try\<close> block: a rejection
  of either awaited call is the function's own rejection. \<open>folders_url\<close> is
  \<open>getURL("FOLDERS")\<close>.
\<close>

definition addFoldersFn ::
  "string \<Rightarrow> 'a IPostAddFolders \<Rightarrow> 'e + 'r \<Rightarrow> 'e + unit \<Rightarrow>
   ('e failure + 'r) \<times> ('f, 't) api_call list" where
  "addFoldersFn folders_url newFolder post_outcome folders_outcome =
     (let payload =
            \<lparr>payload_name = name (folder_data newFolder),
             payload_description = description (folder_data newFolder),
             flows_list = (case flows (folder_data newFolder) of Some fs \<Rightarrow> fs | None \<Rightarrow> []),
             components_list =
               (case components (folder_data newFolder) of Some cs \<Rightarrow> cs | None \<Rightarrow> [])\<rparr>
      in case post_outcome of
           Inl e \<Rightarrow> (Inl (Rejected e), [ApiPost (folders_url @ ''/'') payload])
         | Inr res \<Rightarrow>
             (case folders_outcome of
                Inl e \<Rightarrow>
                  (Inl (Rejected e), [ApiPost (folders_url @ ''/'') payload, GetFoldersApi True])
              | Inr u \<Rightarrow>
                  (Inr res, [ApiPost (folders_url @ ''/'') payload, GetFoldersApi True])))"

subsection \<open>The delete-folder handler of the collection page\<close>

text \<open>
  \<open>handleDeleteFolder\<close> starts the delete mutation with \<open>folderToEdit?.id\<close> and two
  callbacks; the mutation runs \<open>onSuccess\<close> when the request resolves and \<open>onError\<close> when
  it is rejected. The source's field \<open>id\<close> is \<open>ident\<close> here.
\<close>

record FolderType =
  ident :: "string option"

definition handleDeleteFolder ::
  "'a FolderType_scheme option \<Rightarrow> 'e + 'r \<Rightarrow> ('f, 't) api_call list" where
  "handleDeleteFolder folderToEdit outcome =
     MutateDeleteFolder (case folderToEdit of None \<Rightarrow> None | Some f \<Rightarrow> ident f) #
     (case outcome of
        Inr r \<Rightarrow> [SetSuccessData ''Folder deleted successfully.'', Navigate ''/all'']
      | Inl err \<Rightarrow> [ConsoleError, SetErrorData ''Error deleting folder.''])"

section \<open>The status row of a node (NodeStatus)\<close>

text \<open>
  The members of the enum \<open>BuildStatus\<close> that the sources name (\<open>BuildStatus.BUILT\<close>,
  \<open>TO_BUILD\<close>, \<open>BUILDING\<close> and \<open>INACTIVE\<close> in NodeStatus, \<open>ERROR\<close> in the voice
  assistant). A status that is not set is \<open>None\<close>: the component also tests
  \<open>!buildStatus\<close>, and \<open>getNodeBorderClassName\<close> takes \<open>BuildStatus | undefined\<close>.
\<close>

datatype BuildStatus = BUILT | TO_BUILD | BUILDING | INACTIVE | ERROR

text \<open>
  Of the last build result of the vertex the component reads \<open>valid\<close> and
  \<open>data.duration\<close>.
\<close>

record VertexBuildTypeAPI =
  valid :: bool
  duration :: "string option"

definition conditionSuccess ::
  "BuildStatus option \<Rightarrow> 'a VertexBuildTypeAPI_scheme option \<Rightarrow> bool" where
  "conditionSuccess buildStatus validationStatus =
     (buildStatus = Some BUILT \<or>
      (\<not> (buildStatus = None \<or> buildStatus = Some TO_BUILD) \<and>
       (case validationStatus of None \<Rightarrow> False | Some v \<Rightarrow> valid v)))"

text \<open>
  The content of the status tooltip: one of three fixed texts, or the details of the
  last run (validation text, time of the last run, duration).
\<close>

datatype tooltip =
    STATUS_BUILDING
  | STATUS_INACTIVE
  | STATUS_BUILD
  | RunDetails string "string option" "string option"

definition tooltip_content ::
  "BuildStatus option \<Rightarrow> 'a VertexBuildTypeAPI_scheme option \<Rightarrow> string \<Rightarrow>
   string option \<Rightarrow> tooltip" where
  "tooltip_content buildStatus validationStatus validationString lastRunTime =
     (if buildStatus = Some BUILDING then STATUS_BUILDING
      else if buildStatus = Some INACTIVE then STATUS_INACTIVE
      else case validationStatus of
             None \<Rightarrow> STATUS_BUILD
           | Some v \<Rightarrow> RunDetails validationString lastRunTime (duration v))"

text \<open>
  A node of the flow: \<open>data.node\<close> carries \<open>lf_version\<close>; every other field of the node,
  of its \<open>data\<close> and of \<open>data.node\<close> is in the extension part of the three records.
\<close>

record APIClassType =
  lf_version :: "string option"

record 'a NodeDataType =
  node :: "'a APIClassType_scheme"

record ('a, 'b) NodeType =
  data :: "('a, 'b) NodeDataType_scheme"

text \<open>
  The calls the component makes: to the flow store (\<open>setNode\<close>, \<open>buildFlow\<close>), to its
  parent (\<open>setBorderColor\<close>), to its own state (\<open>setValidationStatus(null)\<close>) and to the
  analytics (\<open>track\<close>). \<open>setNode\<close> takes the node id, an updater from the old node to the
  new one and the flag \<open>isUserChange\<close>.
\<close>

datatype 'n node_call =
    SetNode string "'n \<Rightarrow> 'n" bool
  | SetBorderColor string
  | SetValidationStatusNull
  | BuildFlow string
  | Track string string

text \<open>
  The updater of the effect at lines 122 to 141: three nested object spreads that
  replace \<open>data.node.lf_version\<close> by the application's version (\<open>version\<close> of the
  dark store). The node is taken to have its \<open>data.node\<close> object.
\<close>

definition lf_version_update ::
  "string \<Rightarrow> ('a, 'b, 'c) NodeType_scheme \<Rightarrow> ('a, 'b, 'c) NodeType_scheme" where
  "lf_version_update version old =
     old\<lparr>data := (data old)\<lparr>node := (node (data old))\<lparr>lf_version := Some version\<rparr>\<rparr>\<rparr>"

text \<open>
  The effect that runs whenever \<open>buildStatus\<close> or \<open>isBuilding\<close> changes.
\<close>

definition build_status_effect ::
  "string \<Rightarrow> string \<Rightarrow> BuildStatus option \<Rightarrow> bool \<Rightarrow>
   ('a, 'b, 'c) NodeType_scheme node_call list" where
  "build_status_effect version nodeId buildStatus isBuilding =
     (if buildStatus = Some BUILT \<and> \<not> isBuilding
      then [SetNode nodeId (lf_version_update version) False]
      else [])"

text \<open>
  The border class. \<open>getSpecificClassFromBuildStatus\<close> and \<open>classNames\<close> are helpers
  outside these sources and are parameters; \<open>frozen\<close> is optional.
\<close>

definition getBaseBorderClass :: "bool \<Rightarrow> bool \<Rightarrow> bool option \<Rightarrow> string" where
  "getBaseBorderClass selected isBuilding frozen =
     (let className =
            (if selected \<and> \<not> isBuilding
             then '' border-[1.5px] border-foreground hover:shadow-node''
             else ''border-[1.5px] hover:shadow-node'');
          frozenClass = (if selected then ''border-ring-frozen'' else ''border-frozen'')
      in if frozen = Some True then frozenClass else className)"

definition getNodeBorderClassName ::
  "(BuildStatus option \<Rightarrow> 'v option \<Rightarrow> bool \<Rightarrow> string) \<Rightarrow> (string list \<Rightarrow> string) \<Rightarrow>
   bool \<Rightarrow> bool option \<Rightarrow> bool \<Rightarrow> BuildStatus option \<Rightarrow> 'v option \<Rightarrow> string" where
  "getNodeBorderClassName getSpecificClassFromBuildStatus classNames isBuilding frozen
       selected buildStatus validationStatus =
     (let specificClassFromBuildStatus =
            getSpecificClassFromBuildStatus buildStatus validationStatus isBuilding;
          baseBorderClass = getBaseBorderClass selected isBuilding frozen
      in classNames [baseBorderClass, specificClassFromBuildStatus])"

definition border_effect ::
  "(BuildStatus option \<Rightarrow> 'v option \<Rightarrow> bool \<Rightarrow> string) \<Rightarrow> (string list \<Rightarrow> string) \<Rightarrow>
   bool \<Rightarrow> bool option \<Rightarrow> bool \<Rightarrow> BuildStatus option \<Rightarrow> 'v option \<Rightarrow> 'n node_call list" where
  "border_effect getSpecificClassFromBuildStatus classNames isBuilding frozen
       selected buildStatus validationStatus =
     [SetBorderColor
        (getNodeBorderClassName getSpecificClassFromBuildStatus classNames isBuilding frozen
           selected buildStatus validationStatus)]"

text \<open>The two ways to run the component: the play shortcut and the run button.\<close>

definition handlePlayWShortcut ::
  "string \<Rightarrow> BuildStatus option \<Rightarrow> bool \<Rightarrow> bool \<Rightarrow> 'n node_call list" where
  "handlePlayWShortcut nodeId buildStatus isBuilding selected =
     (if buildStatus = Some BUILDING \<or> isBuilding \<or> \<not> selected then []
      else [SetValidationStatusNull, BuildFlow nodeId])"

definition handleClickRun :: "string \<Rightarrow> BuildStatus option \<Rightarrow> bool \<Rightarrow> 'n node_call list" where
  "handleClickRun nodeId buildStatus isBuilding =
     (if buildStatus = Some BUILDING \<or> isBuilding then []
      else [SetValidationStatusNull, BuildFlow nodeId, Track ''Flow Build - Clicked'' nodeId])"

section \<open>The slider parameter (SliderComponent)\<close>

text \<open>
  The stored value of the parameter is a number, the empty string that the component
  itself commits when it is disabled, or \<open>undefined\<close>.
\<close>

datatype slider_value = Undefined | EmptyString | NumberValue jsnum

text \<open>\<open>Number(value)\<close>: the empty string converts to \<open>0\<close>, \<open>undefined\<close> to \<open>NaN\<close>.\<close>

definition to_number :: "slider_value \<Rightarrow> jsnum" where
  "to_number v = (case v of Undefined \<Rightarrow> NaN | EmptyString \<Rightarrow> Fin 0 | NumberValue n \<Rightarrow> n)"

text \<open>
  \<open>rangeSpec\<close> is optional and so are its fields (\<open>rangeSpec?.min ?? -2\<close>); the source's
  \<open>min\<close>, \<open>max\<close> and \<open>step\<close> are \<open>rs_min\<close>, \<open>rs_max\<close> and \<open>rs_step\<close> here.
\<close>

record RangeSpecType =
  rs_min :: "real option"
  rs_max :: "real option"
  rs_step :: "real option"

definition slider_min :: "'a RangeSpecType_scheme option \<Rightarrow> real" where
  "slider_min rangeSpec =
     (case rangeSpec of
        None \<Rightarrow> - 2
      | Some r \<Rightarrow> (case rs_min r of None \<Rightarrow> - 2 | Some m \<Rightarrow> m))"

definition slider_max :: "'a RangeSpecType_scheme option \<Rightarrow> real" where
  "slider_max rangeSpec =
     (case rangeSpec of
        None \<Rightarrow> 2
      | Some r \<Rightarrow> (case rs_max r of None \<Rightarrow> 2 | Some m \<Rightarrow> m))"

definition slider_step :: "'a RangeSpecType_scheme option \<Rightarrow> real" where
  "slider_step rangeSpec =
     (case rangeSpec of
        None \<Rightarrow> 1 / 100
      | Some r \<Rightarrow> (case rs_step r of None \<Rightarrow> 1 / 100 | Some m \<Rightarrow> m))"

text \<open>
  The value shown by the slider, the text above it and the buttons. \<open>getMinOrMaxValue\<close>
  is a helper outside these sources and is a parameter.
\<close>

definition valueAsNumber ::
  "(jsnum \<Rightarrow> real \<Rightarrow> real \<Rightarrow> jsnum) \<Rightarrow> slider_value \<Rightarrow> 'a RangeSpecType_scheme option \<Rightarrow> jsnum"
  where
  "valueAsNumber getMinOrMaxValue v rangeSpec =
     getMinOrMaxValue (to_number v) (slider_min rangeSpec) (slider_max rangeSpec)"

text \<open>
  \<open>handleOnNewValue\<close> is the parent's callback that stores a new value; the flag tells
  whether \<open>skipSnapshot\<close> was passed.
\<close>

datatype slider_call = HandleOnNewValue slider_value bool

definition disabled_effect :: "bool \<Rightarrow> slider_value \<Rightarrow> slider_call list" where
  "disabled_effect disabled v =
     (if disabled \<and> v \<noteq> EmptyString then [HandleOnNewValue EmptyString True] else [])"

text \<open>
  \<open>handleChange\<close> commits \<open>newValue[0]\<close> as it is. It is the slider's \<open>onValueChange\<close> and,
  with \<open>[parseFloat(e.target.value)]\<close>, the \<open>onChange\<close> of the \<open>sliderInput\<close> field.
\<close>

definition handleChange :: "jsnum list \<Rightarrow> slider_call list" where
  "handleChange newValue =
     [HandleOnNewValue (case newValue of [] \<Rightarrow> Undefined | x # xs \<Rightarrow> NumberValue x) False]"

text \<open>
  The \<open>onChange\<close> of the \<open>sliderInput\<close> field: \<open>handleChange([parseFloat(e.target.value)])\<close>,
  with the text of the field as input. \<open>parseFloat\<close> belongs to the runtime and is a
  parameter.
\<close>

definition sliderInput_onChange :: "(string \<Rightarrow> jsnum) \<Rightarrow> string \<Rightarrow> slider_call list" where
  "sliderInput_onChange parseFloat target_value = handleChange [parseFloat target_value]"

text \<open>
  \<open>Math.max(x, lo)\<close> and \<open>Math.min(x, hi)\<close> for a number \<open>x\<close> and a finite bound, and
  \<open>isNaN\<close>.
\<close>

definition math_max :: "jsnum \<Rightarrow> real \<Rightarrow> jsnum" where
  "math_max x lo =
     (case x of
        NaN \<Rightarrow> NaN
      | Fin v \<Rightarrow> Fin (max v lo)
      | PosInfinity \<Rightarrow> PosInfinity
      | NegInfinity \<Rightarrow> Fin lo)"

definition math_min :: "jsnum \<Rightarrow> real \<Rightarrow> jsnum" where
  "math_min x hi =
     (case x of
        NaN \<Rightarrow> NaN
      | Fin v \<Rightarrow> Fin (min v hi)
      | PosInfinity \<Rightarrow> Fin hi
      | NegInfinity \<Rightarrow> NegInfinity)"

definition isNaN :: "jsnum \<Rightarrow> bool" where
  "isNaN x = (x = NaN)"

definition PERCENTAGES :: "real list" where
  "PERCENTAGES = [125 / 1000, 375 / 1000, 625 / 1000, 875 / 1000]"

text \<open>
  \<open>handleOptionClick\<close>: an index outside \<open>PERCENTAGES\<close> reads \<open>undefined\<close> and commits
  nothing. The arithmetic is that of the reals, without the rounding of doubles.
\<close>

definition handleOptionClick ::
  "nat \<Rightarrow> 'a RangeSpecType_scheme option \<Rightarrow> slider_call list" where
  "handleOptionClick option rangeSpec =
     (if option < length PERCENTAGES
      then [HandleOnNewValue
              (NumberValue
                 (Fin (slider_min rangeSpec +
                       (slider_max rangeSpec - slider_min rangeSpec) * PERCENTAGES ! option)))
              False]
      else [])"

text \<open>
  The local state of the text field above the slider, and \<open>handleInputBlur\<close>.
  \<open>parseFloat\<close> and \<open>toFixed(2)\<close> belong to the JavaScript runtime and are parameters;
  \<open>shown\<close> is the component's \<open>valueAsNumber\<close>.
\<close>

record slider_local =
  isEditing :: bool
  inputValue :: string

definition handleInputBlur ::
  "(string \<Rightarrow> jsnum) \<Rightarrow> (jsnum \<Rightarrow> string) \<Rightarrow> 'a RangeSpecType_scheme option \<Rightarrow> jsnum \<Rightarrow>
   slider_local \<Rightarrow> slider_call list \<times> slider_local" where
  "handleInputBlur parseFloat toFixed2 rangeSpec shown local =
     (let newValue = parseFloat (inputValue local);
          calls =
            (if \<not> isNaN newValue
             then (let clampedValue =
                         math_min (math_max newValue (slider_min rangeSpec)) (slider_max rangeSpec)
                   in [HandleOnNewValue (NumberValue clampedValue) False])
             else [])
      in (calls, local\<lparr>isEditing := False, inputValue := toFixed2 shown\<rparr>))"

definition handleKeyDown ::
  "(string \<Rightarrow> jsnum) \<Rightarrow> (jsnum \<Rightarrow> string) \<Rightarrow> 'a RangeSpecType_scheme option \<Rightarrow> jsnum \<Rightarrow>
   string \<Rightarrow> slider_local \<Rightarrow> slider_call list \<times> slider_local" where
  "handleKeyDown parseFloat toFixed2 rangeSpec shown key local =
     (if key = ''Enter'' then handleInputBlur parseFloat toFixed2 rangeSpec shown local
      else if key = ''Escape''
      then ([], local\<lparr>isEditing := False, inputValue := toFixed2 shown\<rparr>)
      else ([], local))"

section \<open>The WebSocket handler of the voice assistant (VoiceAssistant)\<close>

text \<open>
  \<open>startConversation\<close> opens one socket per flow, at this address, and installs
  \<open>handleWebSocketMessage\<close> as its \<open>onmessage\<close>.
\<close>

definition voice_ws_url :: "string \<Rightarrow> string" where
  "voice_ws_url flowId = ''ws://localhost:7860/api/v1/voice/ws/'' @ flowId"

text \<open>
  The values \<open>JSON.parse\<close> returns, and \<open>undefined\<close>, which a read of a missing property
  gives. An object is the list of its properties, each key once.
\<close>

datatype js =
    JUndefined
  | JNull
  | JBool bool
  | JNum real
  | JStr string
  | JArr "js list"
  | JObj "(string \<times> js) list"

datatype js_error = JsSyntaxError | JsTypeError

definition nullish :: "js \<Rightarrow> bool" where
  "nullish v = (v = JUndefined \<or> v = JNull)"

definition truthy :: "js \<Rightarrow> bool" where
  "truthy v =
     (case v of
        JUndefined \<Rightarrow> False
      | JNull \<Rightarrow> False
      | JBool b \<Rightarrow> b
      | JNum x \<Rightarrow> x \<noteq> 0
      | JStr t \<Rightarrow> t \<noteq> []
      | JArr xs \<Rightarrow> True
      | JObj kvs \<Rightarrow> True)"

text \<open>
  \<open>v.k\<close> for a \<open>v\<close> that is neither \<open>null\<close> nor \<open>undefined\<close> (on those the read throws a
  TypeError, which the handler below makes explicit). None of the names the handler
  reads is a property of a string, a number, a boolean or an array.
\<close>

definition js_prop :: "js \<Rightarrow> string \<Rightarrow> js" where
  "js_prop v k =
     (case v of
        JObj kvs \<Rightarrow> (case map_of kvs k of None \<Rightarrow> JUndefined | Some x \<Rightarrow> x)
      | _ \<Rightarrow> JUndefined)"

text \<open>\<open>a === b\<close>: arrays and objects are compared by identity, and a parsed value is a
  fresh object, so it is identical to nothing in the store.\<close>

definition strict_eq :: "js \<Rightarrow> js \<Rightarrow> bool" where
  "strict_eq a b =
     (case a of
        JArr xs \<Rightarrow> False
      | JObj kvs \<Rightarrow> False
      | _ \<Rightarrow> a = b)"

text \<open>
  \<open>{...v}\<close>: the own enumerable properties of \<open>v\<close>; an array or a string spreads its
  indices (a string by characters, which are bytes here).
\<close>

definition spread :: "js \<Rightarrow> (string \<times> js) list" where
  "spread v =
     (case v of
        JObj kvs \<Rightarrow> kvs
      | JArr xs \<Rightarrow> zip (map show_nat [0 ..< length xs]) xs
      | JStr t \<Rightarrow> zip (map show_nat [0 ..< length t]) (map (\<lambda>c. JStr [c]) t)
      | _ \<Rightarrow> [])"

text \<open>A property written in an object literal after a spread replaces a spread one.\<close>

fun set_prop :: "string \<Rightarrow> js \<Rightarrow> (string \<times> js) list \<Rightarrow> (string \<times> js) list" where
  "set_prop k v [] = [(k, v)]"
| "set_prop k v ((k', v') # kvs) =
     (if k' = k then (k, v) # kvs else (k', v') # set_prop k v kvs)"

text \<open>
  An edge of the flow store. \<open>targetHandle_id\<close> is \<open>edge.data.targetHandle.id\<close>; it is
  \<open>None\<close> when \<open>edge.data\<close> or \<open>edge.data.targetHandle\<close> is missing, where the read throws.
\<close>

record Edge =
  animated :: bool
  className :: string
  targetHandle_id :: "js option"

fun mark_running :: "js \<Rightarrow> 'a Edge_scheme list \<Rightarrow> js_error + 'a Edge_scheme list" where
  "mark_running vertex_id [] = Inr []"
| "mark_running vertex_id (edge # edges) =
     (case targetHandle_id edge of
        None \<Rightarrow> Inl JsTypeError
      | Some tid \<Rightarrow>
          (case mark_running vertex_id edges of
             Inl e \<Rightarrow> Inl e
           | Inr edges' \<Rightarrow>
               Inr ((if strict_eq vertex_id tid
                     then edge\<lparr>animated := True, className := ''running''\<rparr>
                     else edge) # edges')))"

text \<open>
  What the handler reads besides the message: whether the audio context exists,
  whether a chunk is playing, the edges of the flow store, and whether decoding a delta
  into an audio buffer succeeds (\<open>base64ToFloat32Array\<close> and the audio API are outside
  these sources).
\<close>

record 'a ws_env =
  has_audio_context :: bool
  is_playing :: bool
  store_edges :: "'a Edge_scheme list"
  audio_ok :: "js \<Rightarrow> bool"

text \<open>The calls the handler makes to the component's state, the stores and the console.\<close>

datatype 'a ws_call =
    SetMessageAppend js
  | EnqueueAudio js
  | PlayNextAudioChunk
  | WsConsoleError
  | WsConsoleLog
  | SetIsBuilding bool
  | SetLockChat bool
  | UpdateBuildStatus "js list" BuildStatus
  | SetEdges "'a Edge_scheme list"
  | AddDataToFlowPool js js
  | UpdateEdgesRunningByNodes "js list" bool
  | RevertBuiltStatusFromBuilding
  | ClearEdgesRunningByNodes
  | AddMessage js
  | SetShowApiKeyModal bool
  | SetStatusError js

text \<open>
  The case \<open>flow.build.progress\<close>: the inner switch on \<open>data.data.event\<close>. A throw keeps
  the calls made before it.
\<close>

definition on_build_progress ::
  "('a, 'b) ws_env_scheme \<Rightarrow> js \<Rightarrow> (js_error + unit) \<times> 'a ws_call list" where
  "on_build_progress env d =
     (let buildData = js_prop d ''data''
      in if nullish buildData then (Inl JsTypeError, [WsConsoleLog])
         else
           (let event = js_prop buildData ''event'';
                vertex_id = js_prop buildData ''vertex_id''
            in if event = JStr ''start''
               then (Inr (), [WsConsoleLog, SetIsBuilding True, SetLockChat True])
               else if event = JStr ''start_vertex''
               then (case mark_running vertex_id (store_edges env) of
                       Inl e \<Rightarrow> (Inl e, [WsConsoleLog, UpdateBuildStatus [vertex_id] BUILDING])
                     | Inr newEdges \<Rightarrow>
                         (Inr (),
                          [WsConsoleLog, UpdateBuildStatus [vertex_id] BUILDING,
                           SetEdges newEdges]))
               else if event = JStr ''end_vertex''
               then (if nullish (js_prop buildData ''data'')
                     then (Inl JsTypeError, [WsConsoleLog, UpdateBuildStatus [vertex_id] BUILT])
                     else
                       (Inr (),
                        [WsConsoleLog, UpdateBuildStatus [vertex_id] BUILT,
                         AddDataToFlowPool
                           (JObj
                              (set_prop ''valid'' (JBool True)
                                 (set_prop ''id'' vertex_id
                                    (set_prop ''run_id'' (js_prop buildData ''run_id'')
                                       (spread (js_prop (js_prop buildData ''data'') ''build_data''))))))
                           vertex_id,
                         UpdateEdgesRunningByNodes [vertex_id] False]))
               else if event = JStr ''error''
               then (Inr (),
                     [WsConsoleLog, UpdateBuildStatus [vertex_id] ERROR,
                      UpdateEdgesRunningByNodes [vertex_id] False])
               else if event = JStr ''end''
               then (Inr (),
                     [WsConsoleLog, SetIsBuilding False, SetLockChat False,
                      RevertBuiltStatusFromBuilding, ClearEdgesRunningByNodes])
               else if event = JStr ''add_message''
               then (Inr (), [WsConsoleLog, AddMessage (js_prop buildData ''data'')])
               else (Inr (), [WsConsoleLog])))"

text \<open>The outer switch on \<open>data.type\<close>.\<close>

definition dispatch_message ::
  "('a, 'b) ws_env_scheme \<Rightarrow> js \<Rightarrow> (js_error + unit) \<times> 'a ws_call list" where
  "dispatch_message env d =
     (if nullish d then (Inl JsTypeError, [])
      else
        (let type = js_prop d ''type''
         in if type = JStr ''response.content_part.added''
            then (let part = js_prop d ''part''
                  in if \<not> nullish part \<and> js_prop part ''type'' = JStr ''text'' \<and>
                        truthy (js_prop part ''text'')
                     then (Inr (), [SetMessageAppend (js_prop part ''text'')])
                     else (Inr (), []))
            else if type = JStr ''response.audio.delta''
            then (if truthy (js_prop d ''delta'') \<and> has_audio_context env
                  then (if audio_ok env (js_prop d ''delta'')
                        then (Inr (),
                              EnqueueAudio (js_prop d ''delta'') #
                              (if \<not> is_playing env then [PlayNextAudioChunk] else []))
                        else (Inr (), [WsConsoleError]))
                  else (Inr (), []))
            else if type = JStr ''flow.build.progress''
            then on_build_progress env d
            else if type = JStr ''error''
            then (Inr (),
                  WsConsoleError #
                  (if js_prop d ''code'' = JStr ''api_key_missing''
                   then [SetShowApiKeyModal True] else []) @
                  [SetStatusError (js_prop d ''error'')])
            else (Inr (), [])))"

text \<open>
  \<open>handleWebSocketMessage\<close>: \<open>JSON.parse(event.data)\<close>, whose outcome is the input here
  (a text that is not JSON throws a SyntaxError), then the dispatch.
\<close>

definition handleWebSocketMessage ::
  "('a, 'b) ws_env_scheme \<Rightarrow> js_error + js \<Rightarrow> (js_error + unit) \<times> 'a ws_call list" where
  "handleWebSocketMessage env parsed =
     (case parsed of
        Inl e \<Rightarrow> (Inl e, [])
      | Inr d \<Rightarrow> dispatch_message env d)"

text \<open>
  The discriminators under which the handler makes each of its calls: the value of
  \<open>type\<close> and, for the calls of a build progress message, the value of \<open>data.event\<close>.
\<close>

fun issued_under :: "js \<Rightarrow> js \<Rightarrow> 'a ws_call \<Rightarrow> bool" where
  "issued_under t e (SetMessageAppend x) = (t = JStr ''response.content_part.added'')"
| "issued_under t e (EnqueueAudio x) = (t = JStr ''response.audio.delta'')"
| "issued_under t e PlayNextAudioChunk = (t = JStr ''response.audio.delta'')"
| "issued_under t e WsConsoleError =
     (t = JStr ''response.audio.delta'' \<or> t = JStr ''error'')"
| "issued_under t e WsConsoleLog = (t = JStr ''flow.build.progress'')"
| "issued_under t e (SetIsBuilding b) =
     (t = JStr ''flow.build.progress'' \<and> e = JStr (if b then ''start'' else ''end''))"
| "issued_under t e (SetLockChat b) =
     (t = JStr ''flow.build.progress'' \<and> e = JStr (if b then ''start'' else ''end''))"
| "issued_under t e (UpdateBuildStatus ids s) =
     (t = JStr ''flow.build.progress'' \<and>
      (s = BUILDING \<and> e = JStr ''start_vertex'' \<or>
       s = BUILT \<and> e = JStr ''end_vertex'' \<or>
       s = ERROR \<and> e = JStr ''error''))"
| "issued_under t e (SetEdges es) =
     (t = JStr ''flow.build.progress'' \<and> e = JStr ''start_vertex'')"
| "issued_under t e (AddDataToFlowPool x v) =
     (t = JStr ''flow.build.progress'' \<and> e = JStr ''end_vertex'')"
| "issued_under t e (UpdateEdgesRunningByNodes ids b) =
     (t = JStr ''flow.build.progress'' \<and> (e = JStr ''end_vertex'' \<or> e = JStr ''error''))"
| "issued_under t e RevertBuiltStatusFromBuilding =
     (t = JStr ''flow.build.progress'' \<and> e = JStr ''end'')"
| "issued_under t e ClearEdgesRunningByNodes =
     (t = JStr ''flow.build.progress'' \<and> e = JStr ''end'')"
| "issued_under t e (AddMessage x) =
     (t = JStr ''flow.build.progress'' \<and> e = JStr ''add_message'')"
| "issued_under t e (SetShowApiKeyModal b) = (t = JStr ''error'')"
| "issued_under t e (SetStatusError x) = (t = JStr ''error'')"

section \<open>Properties of the chat send button\<close>

lemma some_loading_simps:
  "some_loading [] = False"
  "some_loading (f # fs) = (loading f \<or> some_loading fs)"
  by (simp_all add: some_loading_def)

text \<open>
  C3 (the three derived conditions are meant to be mutually exclusive and exhaustive).
  With the chat unlocked, no chat input in the flow and one attached file still loading,
  the code makes both \<open>showStopButton\<close> and \<open>showPlayButton\<close> true, so the stop icon and
  the play icon are rendered together: \<open>showPlayButton\<close> tests only \<open>lockChat\<close>, where
  \<open>showSendButton\<close> tests \<open>lockChat\<close> and the loading flags.
\<close>

theorem button_stop_and_play_both_shown:
  "showStopButton \<lparr>lockChat = False, noInput = True, chatValue = '''',
                    files = [\<lparr>loading = True\<rparr>]\<rparr>
   \<and> showPlayButton \<lparr>lockChat = False, noInput = True, chatValue = '''',
                    files = [\<lparr>loading = True\<rparr>]\<rparr>
   \<and> \<not> showSendButton \<lparr>lockChat = False, noInput = True, chatValue = '''',
                    files = [\<lparr>loading = True\<rparr>]\<rparr>
   \<and> rendered_icons \<lparr>lockChat = False, noInput = True, chatValue = '''',
                    files = [\<lparr>loading = True\<rparr>]\<rparr> = [Square, Zap]"
  by (simp add: showStopButton_def showPlayButton_def showSendButton_def
      rendered_icons_def some_loading_simps)

text \<open>
  In every other state exactly one of the three conditions holds.
\<close>

lemma button_conditions_exclusive_otherwise:
  assumes "\<not> (\<not> lockChat p \<and> noInput p \<and> some_loading (files p))"
  shows "(showStopButton p \<and> \<not> showPlayButton p \<and> \<not> showSendButton p)
         \<or> (\<not> showStopButton p \<and> showPlayButton p \<and> \<not> showSendButton p)
         \<or> (\<not> showStopButton p \<and> \<not> showPlayButton p \<and> showSendButton p)"
  using assms by (auto simp: showStopButton_def showPlayButton_def showSendButton_def)

text \<open>
  C6. A click never calls \<open>send\<close> while the chat is locked or a file is still loading:
  in such a state it calls \<open>stopBuilding\<close> when a build is in progress and nothing
  otherwise; in every other state it calls \<open>send\<close>, and only \<open>send\<close>. So \<open>send\<close> is
  called exactly when neither \<open>lockChat\<close> nor a loading flag holds. The states in
  which the button is disabled are states in which the click would call nothing.
\<close>

theorem handleClick_send_exactly_when_unlocked:
  "(Send \<in> set (handleClick p isBuilding)) = (\<not> lockChat p \<and> \<not> some_loading (files p))
   \<and> (lockChat p \<or> some_loading (files p) \<longrightarrow>
        handleClick p isBuilding = (if isBuilding then [StopBuilding] else []))
   \<and> (\<not> lockChat p \<and> \<not> some_loading (files p) \<longrightarrow> handleClick p isBuilding = [Send])
   \<and> (button_disabled p isBuilding \<longrightarrow> handleClick p isBuilding = [])"
  by (simp add: handleClick_def showStopButton_def button_disabled_def)

theorem handleClick_send_exactly_when_unlocked_witness:
  "(lockChat \<lparr>lockChat = True, noInput = False, chatValue = ''hi'',
              files = [\<lparr>loading = False\<rparr>]\<rparr>
     \<and> handleClick \<lparr>lockChat = True, noInput = False, chatValue = ''hi'',
              files = [\<lparr>loading = False\<rparr>]\<rparr> True = [StopBuilding])
   \<and> (\<not> lockChat \<lparr>lockChat = False, noInput = False, chatValue = ''hi'',
              files = [\<lparr>loading = False\<rparr>]\<rparr>
     \<and> \<not> some_loading (files \<lparr>lockChat = False, noInput = False, chatValue = ''hi'',
              files = [\<lparr>loading = False\<rparr>]\<rparr>)
     \<and> handleClick \<lparr>lockChat = False, noInput = False, chatValue = ''hi'',
              files = [\<lparr>loading = False\<rparr>]\<rparr> False = [Send])"
  using handleClick_send_exactly_when_unlocked
          [of "\<lparr>lockChat = True, noInput = False, chatValue = ''hi'',
                files = [\<lparr>loading = False\<rparr>]\<rparr>" True]
        handleClick_send_exactly_when_unlocked
          [of "\<lparr>lockChat = False, noInput = False, chatValue = ''hi'',
                files = [\<lparr>loading = False\<rparr>]\<rparr>" False]
  by (simp add: some_loading_simps)

section \<open>Properties of the flows query URL\<close>

lemma serialize_Nil_iff: "(serialize qs = []) = (qs = [])"
  by (induction qs rule: serialize.induct) simp_all

lemma append_param_if:
  "(if c then append_param q k v else q) = q @ (if c then [(k, v)] else [])"
  by (simp add: append_param_def)

lemma append_param_string:
  "(case s of Some f \<Rightarrow> if f \<noteq> [] then append_param q k f else q | None \<Rightarrow> q) =
   q @ (if truthy_string s then [(k, case s of Some f \<Rightarrow> f | None \<Rightarrow> [])] else [])"
  by (simp add: append_param_def truthy_string_def split: option.splits)

lemma append_param_number:
  "(case m of Some n \<Rightarrow> if truthy_jsnum n then append_param q k (ts n) else q | None \<Rightarrow> q) =
   q @ (if truthy_number m then [(k, ts (case m of Some n \<Rightarrow> n | None \<Rightarrow> NaN))] else [])"
  by (simp add: append_param_def truthy_number_def split: option.splits)

lemma query_params_concat:
  "query_params ts p =
     (if truthy_flag (components_only p) then [(''components_only'', ''true'')] else []) @
     (if truthy_flag (get_all p) then [(''get_all'', ''true'')] else []) @
     (if truthy_flag (header_flows p) then [(''header_flows'', ''true'')] else []) @
     (if truthy_string (folder_id p)
      then [(''folder_id'', case folder_id p of Some f \<Rightarrow> f | None \<Rightarrow> [])] else []) @
     (if truthy_flag (remove_example_flows p) then [(''remove_example_flows'', ''true'')] else []) @
     (if truthy_number (page p)
      then [(''page'', ts (case page p of Some n \<Rightarrow> n | None \<Rightarrow> NaN))] else []) @
     (if truthy_number (size_p p)
      then [(''size'', ts (case size_p p of Some n \<Rightarrow> n | None \<Rightarrow> NaN))] else [])"
  unfolding query_params_def append_param_string append_param_number
  unfolding Let_def append_param_if
  by (simp only: append_Nil append_assoc)

lemma map_fst_if: "map fst (if c then [(k, v)] else []) = (if c then [k] else [])"
  by simp

lemma query_params_names:
  "map fst (query_params ts p) =
     (if truthy_flag (components_only p) then [''components_only''] else []) @
     (if truthy_flag (get_all p) then [''get_all''] else []) @
     (if truthy_flag (header_flows p) then [''header_flows''] else []) @
     (if truthy_string (folder_id p) then [''folder_id''] else []) @
     (if truthy_flag (remove_example_flows p) then [''remove_example_flows''] else []) @
     (if truthy_number (page p) then [''page''] else []) @
     (if truthy_number (size_p p) then [''size''] else [])"
  unfolding query_params_concat map_append map_fst_if ..

lemma set_if_single: "(k \<in> set (if c then [n] else [])) = (k = n \<and> c)"
  by simp

lemma query_params_has_name:
  "(k \<in> set (map fst (query_params ts p))) =
      ((k = ''components_only'' \<and> truthy_flag (components_only p)) \<or>
       (k = ''get_all'' \<and> truthy_flag (get_all p)) \<or>
       (k = ''header_flows'' \<and> truthy_flag (header_flows p)) \<or>
       (k = ''folder_id'' \<and> truthy_string (folder_id p)) \<or>
       (k = ''remove_example_flows'' \<and> truthy_flag (remove_example_flows p)) \<or>
       (k = ''page'' \<and> truthy_number (page p)) \<or>
       (k = ''size'' \<and> truthy_number (size_p p)))"
  unfolding query_params_names set_append Un_iff set_if_single ..

lemma if_single_Nil: "((if c then [x] else []) = []) = (\<not> c)"
  by simp

lemma query_params_Nil_iff:
  "(query_params ts p = []) =
   (\<not> truthy_flag (components_only p) \<and> \<not> truthy_flag (get_all p) \<and>
    \<not> truthy_flag (header_flows p) \<and> \<not> truthy_string (folder_id p) \<and>
    \<not> truthy_flag (remove_example_flows p) \<and> \<not> truthy_number (page p) \<and>
    \<not> truthy_number (size_p p))"
  unfolding query_params_concat append_is_Nil_conv if_single_Nil ..

lemma addQueryParams_cases:
  "addQueryParams ts url p =
     (if query_params ts p = [] then url else url @ ''?'' @ serialize (query_params ts p))"
  by (simp add: addQueryParams_def Let_def serialize_Nil_iff)

text \<open>
  C4. \<open>addQueryParams\<close> appends a query parameter for a field exactly when the field is
  truthy. When no field is truthy the URL is returned unchanged, without a trailing
  question mark; otherwise the result is the URL, a question mark and the non-empty
  serialisation of the appended parameters. In particular \<open>page\<close> and \<open>size\<close> equal to
  \<open>0\<close> are not appended.
\<close>

theorem addQueryParams_appends_exactly_truthy_fields:
  "((''components_only'' \<in> set (map fst (query_params ts p))) = truthy_flag (components_only p))
   \<and> ((''get_all'' \<in> set (map fst (query_params ts p))) = truthy_flag (get_all p))
   \<and> ((''header_flows'' \<in> set (map fst (query_params ts p))) = truthy_flag (header_flows p))
   \<and> ((''folder_id'' \<in> set (map fst (query_params ts p))) = truthy_string (folder_id p))
   \<and> ((''remove_example_flows'' \<in> set (map fst (query_params ts p)))
        = truthy_flag (remove_example_flows p))
   \<and> ((''page'' \<in> set (map fst (query_params ts p))) = truthy_number (page p))
   \<and> ((''size'' \<in> set (map fst (query_params ts p))) = truthy_number (size_p p))
   \<and> (\<not> truthy_flag (components_only p) \<and> \<not> truthy_flag (get_all p) \<and>
       \<not> truthy_flag (header_flows p) \<and> \<not> truthy_string (folder_id p) \<and>
       \<not> truthy_flag (remove_example_flows p) \<and> \<not> truthy_number (page p) \<and>
       \<not> truthy_number (size_p p)
       \<longrightarrow> addQueryParams ts url p = url)
   \<and> (query_params ts p \<noteq> [] \<longrightarrow>
         addQueryParams ts url p = url @ ''?'' @ serialize (query_params ts p)
         \<and> serialize (query_params ts p) \<noteq> [])
   \<and> (page p = Some (Fin 0) \<longrightarrow> ''page'' \<notin> set (map fst (query_params ts p)))
   \<and> (size_p p = Some (Fin 0) \<longrightarrow> ''size'' \<notin> set (map fst (query_params ts p)))"
proof -
  have unchanged:
    "\<not> truthy_flag (components_only p) \<and> \<not> truthy_flag (get_all p) \<and>
     \<not> truthy_flag (header_flows p) \<and> \<not> truthy_string (folder_id p) \<and>
     \<not> truthy_flag (remove_example_flows p) \<and> \<not> truthy_number (page p) \<and>
     \<not> truthy_number (size_p p)
     \<longrightarrow> addQueryParams ts url p = url"
    by (simp add: addQueryParams_cases query_params_Nil_iff)
  have changed:
    "query_params ts p \<noteq> [] \<longrightarrow>
       addQueryParams ts url p = url @ ''?'' @ serialize (query_params ts p)
       \<and> serialize (query_params ts p) \<noteq> []"
    by (simp add: addQueryParams_cases serialize_Nil_iff)
  have page0: "page p = Some (Fin 0) \<longrightarrow> ''page'' \<notin> set (map fst (query_params ts p))"
    unfolding query_params_has_name by (simp add: truthy_number_def truthy_jsnum_def)
  have size0: "size_p p = Some (Fin 0) \<longrightarrow> ''size'' \<notin> set (map fst (query_params ts p))"
    unfolding query_params_has_name by (simp add: truthy_number_def truthy_jsnum_def)
  have names:
    "(''components_only'' \<in> set (map fst (query_params ts p))) = truthy_flag (components_only p)"
    "(''get_all'' \<in> set (map fst (query_params ts p))) = truthy_flag (get_all p)"
    "(''header_flows'' \<in> set (map fst (query_params ts p))) = truthy_flag (header_flows p)"
    "(''folder_id'' \<in> set (map fst (query_params ts p))) = truthy_string (folder_id p)"
    "(''remove_example_flows'' \<in> set (map fst (query_params ts p)))
       = truthy_flag (remove_example_flows p)"
    "(''page'' \<in> set (map fst (query_params ts p))) = truthy_number (page p)"
    "(''size'' \<in> set (map fst (query_params ts p))) = truthy_number (size_p p)"
    unfolding query_params_has_name by simp_all
  from names unchanged changed page0 size0 show ?thesis
    by (intro conjI)
qed

theorem addQueryParams_appends_exactly_truthy_fields_witness:
  "''page'' \<notin> set (map fst (query_params sample_toString
         \<lparr>components_only = Some True, get_all = None, header_flows = Some False,
          folder_id = Some ''a b'', remove_example_flows = None, page = Some (Fin 0),
          size_p = Some (Fin 20)\<rparr>))
   \<and> ''size'' \<in> set (map fst (query_params sample_toString
         \<lparr>components_only = Some True, get_all = None, header_flows = Some False,
          folder_id = Some ''a b'', remove_example_flows = None, page = Some (Fin 0),
          size_p = Some (Fin 20)\<rparr>))
   \<and> addQueryParams sample_toString ''/api/v1/flows/''
         \<lparr>components_only = Some True, get_all = None, header_flows = Some False,
          folder_id = Some ''a b'', remove_example_flows = None, page = Some (Fin 0),
          size_p = Some (Fin 20)\<rparr>
       = ''/api/v1/flows/'' @ ''?'' @ serialize (query_params sample_toString
         \<lparr>components_only = Some True, get_all = None, header_flows = Some False,
          folder_id = Some ''a b'', remove_example_flows = None, page = Some (Fin 0),
          size_p = Some (Fin 20)\<rparr>)
   \<and> ''size'' \<notin> set (map fst (query_params sample_toString
         \<lparr>components_only = None, get_all = Some False, header_flows = None,
          folder_id = Some '''', remove_example_flows = None, page = Some (Fin 0),
          size_p = Some (Fin 0)\<rparr>))
   \<and> addQueryParams sample_toString ''/api/v1/flows/''
         \<lparr>components_only = None, get_all = Some False, header_flows = None,
          folder_id = Some '''', remove_example_flows = None, page = Some (Fin 0),
          size_p = Some (Fin 0)\<rparr> = ''/api/v1/flows/''"
proof -
  note claim = addQueryParams_appends_exactly_truthy_fields
  have no_page:
    "''page'' \<notin> set (map fst (query_params sample_toString
         \<lparr>components_only = Some True, get_all = None, header_flows = Some False,
          folder_id = Some ''a b'', remove_example_flows = None, page = Some (Fin 0),
          size_p = Some (Fin 20)\<rparr>))"
    by (rule claim [THEN conjunct2, THEN conjunct2, THEN conjunct2, THEN conjunct2,
                    THEN conjunct2, THEN conjunct2, THEN conjunct2, THEN conjunct2,
                    THEN conjunct2, THEN conjunct1, THEN mp]) simp
  have has_size:
    "''size'' \<in> set (map fst (query_params sample_toString
         \<lparr>components_only = Some True, get_all = None, header_flows = Some False,
          folder_id = Some ''a b'', remove_example_flows = None, page = Some (Fin 0),
          size_p = Some (Fin 20)\<rparr>))"
    unfolding claim [THEN conjunct2, THEN conjunct2, THEN conjunct2, THEN conjunct2,
                     THEN conjunct2, THEN conjunct2, THEN conjunct1]
    by (simp add: truthy_number_def truthy_jsnum_def)
  have appended:
    "addQueryParams sample_toString ''/api/v1/flows/''
         \<lparr>components_only = Some True, get_all = None, header_flows = Some False,
          folder_id = Some ''a b'', remove_example_flows = None, page = Some (Fin 0),
          size_p = Some (Fin 20)\<rparr>
       = ''/api/v1/flows/'' @ ''?'' @ serialize (query_params sample_toString
         \<lparr>components_only = Some True, get_all = None, header_flows = Some False,
          folder_id = Some ''a b'', remove_example_flows = None, page = Some (Fin 0),
          size_p = Some (Fin 20)\<rparr>)"
    by (rule claim [THEN conjunct2, THEN conjunct2, THEN conjunct2, THEN conjunct2,
                    THEN conjunct2, THEN conjunct2, THEN conjunct2, THEN conjunct2,
                    THEN conjunct1, THEN mp, THEN conjunct1])
       (simp add: query_params_Nil_iff truthy_flag_def)
  have no_size:
    "''size'' \<notin> set (map fst (query_params sample_toString
         \<lparr>components_only = None, get_all = Some False, header_flows = None,
          folder_id = Some '''', remove_example_flows = None, page = Some (Fin 0),
          size_p = Some (Fin 0)\<rparr>))"
    by (rule claim [THEN conjunct2, THEN conjunct2, THEN conjunct2, THEN conjunct2,
                    THEN conjunct2, THEN conjunct2, THEN conjunct2, THEN conjunct2,
                    THEN conjunct2, THEN conjunct2, THEN mp]) simp
  have unchanged:
    "addQueryParams sample_toString ''/api/v1/flows/''
         \<lparr>components_only = None, get_all = Some False, header_flows = None,
          folder_id = Some '''', remove_example_flows = None, page = Some (Fin 0),
          size_p = Some (Fin 0)\<rparr> = ''/api/v1/flows/''"
    by (rule claim [THEN conjunct2, THEN conjunct2, THEN conjunct2, THEN conjunct2,
                    THEN conjunct2, THEN conjunct2, THEN conjunct2, THEN conjunct1, THEN mp])
       (simp add: truthy_flag_def truthy_string_def truthy_number_def truthy_jsnum_def)
  from no_page has_size appended no_size unchanged show ?thesis
    by (intro conjI)
qed

section \<open>Properties of the request functions\<close>

lemma mutationFn_no_params:
  "mutationFn ts pf ex url None o1 o2 =
     (Inl TypeError, [SetErrorData ''Could not load flows from database''])"
  by (simp add: mutationFn_def getRefreshFlowsFn_def)

lemma mutationFn_first_rejected:
  "mutationFn ts pf ex url (Some p) (Inl e) o2 =
     (Inl (Rejected e),
      [ApiGet (addQueryParams ts (url @ ''/'') p),
       SetErrorData ''Could not load flows from database''])"
  by (simp add: mutationFn_def getRefreshFlowsFn_def)

lemma mutationFn_second_rejected:
  "mutationFn ts pf ex url (Some p) (Inr d) (Inl e) =
     (Inl (Rejected e),
      [ApiGet (addQueryParams ts (url @ ''/'') p),
       ApiGet (addQueryParams ts (url @ ''/'') components_params),
       SetErrorData ''Could not load flows from database''])"
  by (simp add: mutationFn_def getRefreshFlowsFn_def)

lemma mutationFn_resolved:
  "mutationFn ts pf ex url (Some p) (Inr d1) (Inr d2) =
     (Inr [],
      [ApiGet (addQueryParams ts (url @ ''/'') p),
       ApiGet (addQueryParams ts (url @ ''/'') components_params)] @
      (if truthy_data d2 then [TypesSetState (saved_components_update ex (pf d2))] else []) @
      (if truthy_data d1 then [SetFlows (flows_of d1)] else []))"
  by (simp add: mutationFn_def getRefreshFlowsFn_def)

lemma mutationFn_failure_cases:
  assumes "isl (fst (mutationFn ts pf ex url params o1 o2))"
  shows "params = None \<or> (\<exists>p e. params = Some p \<and> o1 = Inl e)
         \<or> (\<exists>p d e. params = Some p \<and> o1 = Inr d \<and> o2 = Inl e)"
proof (cases params)
  case None
  then show ?thesis by simp
next
  case (Some p)
  show ?thesis
  proof (cases o1)
    case (Inl e)
    with Some show ?thesis by simp
  next
    case (Inr d)
    show ?thesis
    proof (cases o2)
      case (Inl e)
      with Some Inr show ?thesis by simp
    next
      case (Inr d2)
      with Some \<open>o1 = Inr d\<close> assms show ?thesis
        by (simp add: mutationFn_resolved)
    qed
  qed
qed

text \<open>
  C1, against the claim as stated: a rejected post of a new folder ends
  \<open>addFoldersFn\<close> with that rejection, and no error title has been set in the alert
  store.
\<close>

theorem post_folders_rejection_sets_no_alert:
  "fst (addFoldersFn ''/api/v1/folders''
          \<lparr>folder_data = \<lparr>name = ''New Folder'', description = '''', flows = None,
                           components = None\<rparr>\<rparr>
          (Inl ''Network Error'') (Inr ()))
     = Inl (Rejected ''Network Error'')
   \<and> \<not> list_ex is_error_alert
        (snd (addFoldersFn ''/api/v1/folders''
                \<lparr>folder_data = \<lparr>name = ''New Folder'', description = '''', flows = None,
                                 components = None\<rparr>\<rparr>
                (Inl ''Network Error'') (Inr ())))"
  by (simp add: addFoldersFn_def)

text \<open>
  C1 as amended. None of the three functions sends a request again after it failed
  (the wrapper \<open>mutate\<close> of \<open>UseRequestProcessor\<close>, which runs the two mutation
  functions, is outside these sources). The refresh-flows mutation fails exactly when
  its parameters are missing or one of its two requests is rejected; it then has sent
  the requests up to the rejected one and no other, its last call sets the error title
  \<open>Could not load flows from database\<close>, and it throws the same failure again to its
  caller (the rejection of the request, or the TypeError). The delete-folder handler
  answers a rejected mutation by logging it and setting the error title
  \<open>Error deleting folder.\<close>. The post-folders mutation sets no error title in any
  case: when its post is rejected it has sent that one post and throws the rejection,
  when the folder refetch that follows is rejected it has sent the post and the one
  refetch and throws that rejection.
\<close>

theorem request_failures_surface_as_alerts_or_propagate:
  "mutationFn ts pf ex url None o1 o2 = (Inl TypeError, [SetErrorData ''Could not load flows from database''])
   \<and> mutationFn ts pf ex url (Some p) (Inl e1) o2 =
      (Inl (Rejected e1),
       [ApiGet (addQueryParams ts (url @ ''/'') p), SetErrorData ''Could not load flows from database''])
   \<and> mutationFn ts pf ex url (Some p) (Inr d1) (Inl e2) =
      (Inl (Rejected e2),
       [ApiGet (addQueryParams ts (url @ ''/'') p),
        ApiGet (addQueryParams ts (url @ ''/'') components_params),
        SetErrorData ''Could not load flows from database''])
   \<and> (isl (fst (mutationFn ts pf ex url params o1 o2)) \<longrightarrow>
      params = None \<or> isl o1 \<or> isl o2)
   \<and> (isl (fst (mutationFn ts pf ex url params o1 o2)) \<longrightarrow>
      last (snd (mutationFn ts pf ex url params o1 o2)) = SetErrorData ''Could not load flows from database''
      \<and> list_all is_request (butlast (snd (mutationFn ts pf ex url params o1 o2)))
      \<and> length (snd (mutationFn ts pf ex url params o1 o2)) \<le> 3)
   \<and> (params = None \<or> isl o1 \<or> isl o2 \<longrightarrow>
      isl (fst (mutationFn ts pf ex url params o1 o2)))
   \<and> handleDeleteFolder folderToEdit (Inl err)
       = [MutateDeleteFolder (case folderToEdit of None \<Rightarrow> None | Some f \<Rightarrow> ident f),
          ConsoleError, SetErrorData ''Error deleting folder.'']
   \<and> addFoldersFn furl nf (Inl e3) fo =
      (Inl (Rejected e3),
       [ApiPost (furl @ ''/'')
          \<lparr>payload_name = name (folder_data nf),
             payload_description = description (folder_data nf),
             flows_list = (case flows (folder_data nf) of Some fs \<Rightarrow> fs | None \<Rightarrow> []),
             components_list =
               (case components (folder_data nf) of Some cs \<Rightarrow> cs | None \<Rightarrow> [])\<rparr>])
   \<and> addFoldersFn furl nf (Inr r) (Inl e4) =
      (Inl (Rejected e4),
       [ApiPost (furl @ ''/'')
          \<lparr>payload_name = name (folder_data nf),
             payload_description = description (folder_data nf),
             flows_list = (case flows (folder_data nf) of Some fs \<Rightarrow> fs | None \<Rightarrow> []),
             components_list =
               (case components (folder_data nf) of Some cs \<Rightarrow> cs | None \<Rightarrow> [])\<rparr>,
        GetFoldersApi True])
   \<and> (isl po \<or> isl fo2 \<longrightarrow> isl (fst (addFoldersFn furl nf po fo2)))
   \<and> \<not> list_ex is_error_alert (snd (addFoldersFn furl nf po fo2))
   \<and> list_all is_request (snd (addFoldersFn furl nf po fo2))
   \<and> length (snd (addFoldersFn furl nf po fo2)) \<le> 2"
proof -
  have no_params:
    "mutationFn ts pf ex url None o1 o2 = (Inl TypeError, [SetErrorData ''Could not load flows from database''])"
    by (simp add: mutationFn_no_params)
  have first_rejected:
    "mutationFn ts pf ex url (Some p) (Inl e1) o2 =
      (Inl (Rejected e1),
       [ApiGet (addQueryParams ts (url @ ''/'') p), SetErrorData ''Could not load flows from database''])"
    by (simp add: mutationFn_first_rejected)
  have second_rejected:
    "mutationFn ts pf ex url (Some p) (Inr d1) (Inl e2) =
      (Inl (Rejected e2),
       [ApiGet (addQueryParams ts (url @ ''/'') p),
        ApiGet (addQueryParams ts (url @ ''/'') components_params),
        SetErrorData ''Could not load flows from database''])"
    by (simp add: mutationFn_second_rejected)
  have only_then:
    "isl (fst (mutationFn ts pf ex url params o1 o2)) \<longrightarrow>
      params = None \<or> isl o1 \<or> isl o2"
  proof
    assume "isl (fst (mutationFn ts pf ex url params o1 o2))"
    from mutationFn_failure_cases [OF this] show "params = None \<or> isl o1 \<or> isl o2"
      by (elim disjE exE conjE) simp_all
  qed
  have refresh:
    "isl (fst (mutationFn ts pf ex url params o1 o2)) \<longrightarrow>
      last (snd (mutationFn ts pf ex url params o1 o2)) = SetErrorData ''Could not load flows from database''
      \<and> list_all is_request (butlast (snd (mutationFn ts pf ex url params o1 o2)))
      \<and> length (snd (mutationFn ts pf ex url params o1 o2)) \<le> 3"
  proof
    assume "isl (fst (mutationFn ts pf ex url params o1 o2))"
    then consider "params = None"
      | q e where "params = Some q" "o1 = Inl e"
      | q d e where "params = Some q" "o1 = Inr d" "o2 = Inl e"
      using mutationFn_failure_cases by blast
    then show "last (snd (mutationFn ts pf ex url params o1 o2)) = SetErrorData ''Could not load flows from database''
      \<and> list_all is_request (butlast (snd (mutationFn ts pf ex url params o1 o2)))
      \<and> length (snd (mutationFn ts pf ex url params o1 o2)) \<le> 3"
    proof cases
      case 1
      then show ?thesis by (simp add: mutationFn_no_params)
    next
      case 2
      then show ?thesis by (simp add: mutationFn_first_rejected)
    next
      case 3
      then show ?thesis by (simp add: mutationFn_second_rejected)
    qed
  qed
  have rethrown:
    "params = None \<or> isl o1 \<or> isl o2 \<longrightarrow>
      isl (fst (mutationFn ts pf ex url params o1 o2))"
    by (cases params; cases o1; cases o2)
       (simp_all add: mutationFn_no_params mutationFn_first_rejected
          mutationFn_second_rejected)
  have delete:
    "handleDeleteFolder folderToEdit (Inl err)
       = [MutateDeleteFolder (case folderToEdit of None \<Rightarrow> None | Some f \<Rightarrow> ident f),
          ConsoleError, SetErrorData ''Error deleting folder.'']"
    by (simp add: handleDeleteFolder_def)
  have post_rejected:
    "addFoldersFn furl nf (Inl e3) fo =
      (Inl (Rejected e3),
       [ApiPost (furl @ ''/'')
          \<lparr>payload_name = name (folder_data nf),
             payload_description = description (folder_data nf),
             flows_list = (case flows (folder_data nf) of Some fs \<Rightarrow> fs | None \<Rightarrow> []),
             components_list =
               (case components (folder_data nf) of Some cs \<Rightarrow> cs | None \<Rightarrow> [])\<rparr>])"
    by (simp add: addFoldersFn_def)
  have refetch_rejected:
    "addFoldersFn furl nf (Inr r) (Inl e4) =
      (Inl (Rejected e4),
       [ApiPost (furl @ ''/'')
          \<lparr>payload_name = name (folder_data nf),
             payload_description = description (folder_data nf),
             flows_list = (case flows (folder_data nf) of Some fs \<Rightarrow> fs | None \<Rightarrow> []),
             components_list =
               (case components (folder_data nf) of Some cs \<Rightarrow> cs | None \<Rightarrow> [])\<rparr>,
        GetFoldersApi True])"
    by (simp add: addFoldersFn_def)
  have post1:
    "isl po \<or> isl fo2 \<longrightarrow> isl (fst (addFoldersFn furl nf po fo2))"
    by (cases po; cases fo2) (simp_all add: addFoldersFn_def)
  have post2:
    "\<not> list_ex is_error_alert (snd (addFoldersFn furl nf po fo2))"
    by (cases po; cases fo2) (simp_all add: addFoldersFn_def)
  have post3:
    "list_all is_request (snd (addFoldersFn furl nf po fo2))"
    by (cases po; cases fo2) (simp_all add: addFoldersFn_def)
  have post4:
    "length (snd (addFoldersFn furl nf po fo2)) \<le> 2"
    by (cases po; cases fo2) (simp_all add: addFoldersFn_def)
  from no_params first_rejected second_rejected only_then refresh rethrown delete post_rejected refetch_rejected post1 post2 post3 post4 show ?thesis
    by (intro conjI)
qed

theorem request_failures_surface_as_alerts_or_propagate_witness:
  "isl (fst (mutationFn sample_toString flows_of dom ''/api/v1/flows''
               (Some \<lparr>components_only = None, get_all = None, header_flows = Some True,
                      folder_id = None, remove_example_flows = None, page = None,
                      size_p = None\<rparr>)
               (Inr (FlowArray [''flow-a''])) (Inl ''timeout'')))
   \<and> last (snd (mutationFn sample_toString flows_of dom ''/api/v1/flows''
               (Some \<lparr>components_only = None, get_all = None, header_flows = Some True,
                      folder_id = None, remove_example_flows = None, page = None,
                      size_p = None\<rparr>)
               (Inr (FlowArray [''flow-a''])) (Inl ''timeout'')))
       = SetErrorData ''Could not load flows from database''
   \<and> list_all is_request (butlast (snd (mutationFn sample_toString flows_of dom ''/api/v1/flows''
               (Some \<lparr>components_only = None, get_all = None, header_flows = Some True,
                      folder_id = None, remove_example_flows = None, page = None,
                      size_p = None\<rparr>)
               (Inr (FlowArray [''flow-a''])) (Inl ''timeout''))))
   \<and> isl (fst (addFoldersFn ''/api/v1/folders''
               \<lparr>folder_data = \<lparr>name = ''New Folder'', description = '''', flows = None,
                                components = None\<rparr>\<rparr>
               (Inl ''Network Error'') (Inr ())))"
proof -
  note claim = request_failures_surface_as_alerts_or_propagate
  have failed:
    "isl (fst (mutationFn sample_toString flows_of dom ''/api/v1/flows''
               (Some \<lparr>components_only = None, get_all = None, header_flows = Some True,
                      folder_id = None, remove_example_flows = None, page = None,
                      size_p = None\<rparr>)
               (Inr (FlowArray [''flow-a''])) (Inl ''timeout'')))"
    by (rule claim [THEN conjunct2, THEN conjunct2, THEN conjunct2, THEN conjunct2, THEN conjunct2, THEN conjunct1, THEN mp]) simp
  note refresh = claim [THEN conjunct2, THEN conjunct2, THEN conjunct2, THEN conjunct2, THEN conjunct1, THEN mp, OF failed]
  have post:
    "isl (fst (addFoldersFn ''/api/v1/folders''
               \<lparr>folder_data = \<lparr>name = ''New Folder'', description = '''', flows = None,
                                components = None\<rparr>\<rparr>
               (Inl ''Network Error'') (Inr ())))"
    by (rule claim [THEN conjunct2, THEN conjunct2, THEN conjunct2, THEN conjunct2, THEN conjunct2, THEN conjunct2, THEN conjunct2, THEN conjunct2, THEN conjunct2, THEN conjunct1, THEN mp]) simp
  from failed refresh [THEN conjunct1] refresh [THEN conjunct2, THEN conjunct1] post
  show ?thesis
    by (intro conjI)
qed

text \<open>
  C8, against the claim as stated: when the flows endpoint answers with a paginated
  envelope, what reaches the flows store is the list under \<open>items\<close>, not the payload
  that was fetched.
\<close>

theorem refresh_flows_stores_items_not_payload:
  "snd (mutationFn sample_toString flows_of dom ''/api/v1/flows''
          (Some \<lparr>components_only = None, get_all = None, header_flows = None,
                 folder_id = None, remove_example_flows = None, page = Some (Fin 1),
                 size_p = Some (Fin 2)\<rparr>)
          (Inr (Paginated \<lparr>items = [''flow-a'', ''flow-b''], \<dots> = (7::nat)\<rparr>))
          (Inr NoData))
     = [ApiGet ''/api/v1/flows/?page=1&size=2'',
        ApiGet ''/api/v1/flows/?components_only=true&get_all=true'',
        SetFlows [''flow-a'', ''flow-b'']]
   \<and> FlowArray [''flow-a'', ''flow-b'']
       \<noteq> Paginated \<lparr>items = [''flow-a'', ''flow-b''], \<dots> = (7::nat)\<rparr>"
  by (simp add: mutationFn_resolved truthy_data_def flows_of_def components_params_def
      addQueryParams_cases query_params_concat truthy_flag_def truthy_string_def
      truthy_number_def truthy_jsnum_def sample_toString_def show_nat.simps digit_char_def
      urlencode_def
      urlencode_byte_def is_alnum_def)

text \<open>
  C8 as amended. After both requests of a refresh have resolved, the flows store
  receives the fetched flows as they are, neither filtered nor checked: the payload
  itself when it is an array, the list under \<open>items\<close> when it is a paginated envelope,
  and nothing when the payload is empty. The saved components are not stored as
  fetched: a non-empty payload goes through \<open>processFlows\<close>, its result replaces the
  entry \<open>saved_components\<close> of the types store, the other entries stay, and
  \<open>ComponentFields\<close> is computed from the new entries by
  \<open>extractFieldsFromComponenents\<close>.
\<close>

theorem refresh_flows_store_writes:
  "mutationFn ts pf ex url (Some p) (Inr d1) (Inr d2) =
     (Inr [],
      [ApiGet (addQueryParams ts (url @ ''/'') p),
       ApiGet (addQueryParams ts (url @ ''/'') components_params)] @
      (case d2 of
         NoData \<Rightarrow> []
       | _ \<Rightarrow> [TypesSetState (saved_components_update ex (pf d2))]) @
      (case d1 of
         NoData \<Rightarrow> []
       | FlowArray fs \<Rightarrow> [SetFlows fs]
       | Paginated pg \<Rightarrow> [SetFlows (items pg)]))
   \<and> store_data (saved_components_update ex c st) ''saved_components'' = Some c
   \<and> (k \<noteq> ''saved_components'' \<longrightarrow>
        store_data (saved_components_update ex c st) k = store_data st k)
   \<and> ComponentFields (saved_components_update ex c st)
       = ex (store_data (saved_components_update ex c st))"
proof -
  have writes:
    "mutationFn ts pf ex url (Some p) (Inr d1) (Inr d2) =
     (Inr [],
      [ApiGet (addQueryParams ts (url @ ''/'') p),
       ApiGet (addQueryParams ts (url @ ''/'') components_params)] @
      (case d2 of
         NoData \<Rightarrow> []
       | _ \<Rightarrow> [TypesSetState (saved_components_update ex (pf d2))]) @
      (case d1 of
         NoData \<Rightarrow> []
       | FlowArray fs \<Rightarrow> [SetFlows fs]
       | Paginated pg \<Rightarrow> [SetFlows (items pg)]))"
    by (cases d1; cases d2)
       (simp_all add: mutationFn_resolved truthy_data_def flows_of_def)
  have entry: "store_data (saved_components_update ex c st) ''saved_components'' = Some c"
    by (simp add: saved_components_update_def)
  have others:
    "k \<noteq> ''saved_components'' \<longrightarrow>
       store_data (saved_components_update ex c st) k = store_data st k"
    by (simp add: saved_components_update_def)
  have fields:
    "ComponentFields (saved_components_update ex c st)
       = ex (store_data (saved_components_update ex c st))"
    by (simp add: saved_components_update_def)
  from writes entry others fields show ?thesis
    by (intro conjI)
qed

theorem refresh_flows_store_writes_witness:
  "''types'' \<noteq> ''saved_components''
   \<and> store_data
       (saved_components_update dom [''component-a'']
          \<lparr>store_data = [''types'' \<mapsto> [''t'']], ComponentFields = ({}::string set)\<rparr>) ''types''
     = Some [''t'']
   \<and> store_data
       (saved_components_update dom [''component-a'']
          \<lparr>store_data = [''types'' \<mapsto> [''t'']], ComponentFields = ({}::string set)\<rparr>) ''saved_components''
     = Some [''component-a'']"
proof -
  note claim = refresh_flows_store_writes
  have distinct: "''types'' \<noteq> ''saved_components''"
    by simp
  have kept:
    "store_data
       (saved_components_update dom [''component-a'']
          \<lparr>store_data = [''types'' \<mapsto> [''t'']], ComponentFields = ({}::string set)\<rparr>) ''types''
     = store_data \<lparr>store_data = [''types'' \<mapsto> [''t'']], ComponentFields = ({}::string set)\<rparr> ''types''"
    by (rule claim [THEN conjunct2, THEN conjunct2, THEN conjunct1, THEN mp]) (rule distinct)
  have new:
    "store_data
       (saved_components_update dom [''component-a'']
          \<lparr>store_data = [''types'' \<mapsto> [''t'']], ComponentFields = ({}::string set)\<rparr>) ''saved_components''
     = Some [''component-a'']"
    by (rule claim [THEN conjunct2, THEN conjunct1])
  from distinct kept new show ?thesis
    by simp
qed

section \<open>Properties of the node status\<close>

text \<open>
  C2, against the claim as stated: when the status of a node becomes \<open>BUILT\<close> and no
  build is running, NodeStatus calls \<open>setNode\<close> with an updater that overwrites
  \<open>data.node.lf_version\<close>; on a node last built by version \<open>1.0.0\<close>, with the
  application at \<open>1.1.0\<close>, the node's data after the update differs from its data
  before.
\<close>

theorem built_status_rewrites_node_data:
  "build_status_effect ''1.1.0'' ''node-1'' (Some BUILT) False
     = [SetNode ''node-1'' (lf_version_update ''1.1.0'') False]
   \<and> data (lf_version_update ''1.1.0''
              \<lparr>data = \<lparr>node = \<lparr>lf_version = Some ''1.0.0''\<rparr>\<rparr>\<rparr>)
       \<noteq> data \<lparr>data = \<lparr>node = \<lparr>lf_version = Some ''1.0.0''\<rparr>\<rparr>\<rparr>"
  by (simp add: build_status_effect_def lf_version_update_def)

text \<open>
  C2 as amended. A change of the build status leaves the stored data of the node
  alone, except when the new status is \<open>BUILT\<close> and no build is running: then the
  component calls \<open>setNode\<close> once, not as a user change, with an updater that sets
  \<open>data.node.lf_version\<close> to the application's version and keeps every other field of
  the node, of its \<open>data\<close> and of \<open>data.node\<close>.
\<close>

theorem build_status_effect_touches_only_lf_version:
  "(buildStatus \<noteq> Some BUILT \<or> isBuilding \<longrightarrow>
      build_status_effect version nodeId buildStatus isBuilding = [])
   \<and> (buildStatus = Some BUILT \<and> \<not> isBuilding \<longrightarrow>
      build_status_effect version nodeId buildStatus isBuilding
        = [SetNode nodeId (lf_version_update version) False])
   \<and> lf_version (node (data (lf_version_update version old))) = Some version
   \<and> APIClassType.more (node (data (lf_version_update version old)))
       = APIClassType.more (node (data old))
   \<and> NodeDataType.more (data (lf_version_update version old)) = NodeDataType.more (data old)
   \<and> NodeType.more (lf_version_update version old) = NodeType.more old"
  by (simp add: build_status_effect_def lf_version_update_def)

theorem build_status_effect_touches_only_lf_version_witness:
  "build_status_effect ''1.1.0'' ''node-1'' (Some BUILDING) True = []
   \<and> build_status_effect ''1.1.0'' ''node-1'' (Some BUILT) False
       = [SetNode ''node-1'' (lf_version_update ''1.1.0'') False]
   \<and> NodeDataType.more
       (data (lf_version_update ''1.1.0''
                \<lparr>data = \<lparr>node = \<lparr>lf_version = Some ''1.0.0''\<rparr>, \<dots> = ''ChatInput''\<rparr>\<rparr>))
       = ''ChatInput''"
proof -
  note claim = build_status_effect_touches_only_lf_version
  have idle: "build_status_effect ''1.1.0'' ''node-1'' (Some BUILDING) True = []"
    by (rule claim [THEN conjunct1, THEN mp]) simp
  have built:
    "build_status_effect ''1.1.0'' ''node-1'' (Some BUILT) False
       = [SetNode ''node-1'' (lf_version_update ''1.1.0'') False]"
    by (rule claim [THEN conjunct2, THEN conjunct1, THEN mp]) simp
  have kept:
    "NodeDataType.more
       (data (lf_version_update ''1.1.0''
                \<lparr>data = \<lparr>node = \<lparr>lf_version = Some ''1.0.0''\<rparr>, \<dots> = ''ChatInput''\<rparr>\<rparr>))
       = NodeDataType.more
           (data \<lparr>data = \<lparr>node = \<lparr>lf_version = Some ''1.0.0''\<rparr>, \<dots> = ''ChatInput''\<rparr>\<rparr>)"
    by (rule claim [THEN conjunct2, THEN conjunct2, THEN conjunct2, THEN conjunct2,
                    THEN conjunct1])
  from idle built kept show ?thesis
    by simp
qed

section \<open>Properties of the WebSocket handler\<close>



lemma on_build_progress_routes:
  assumes "c \<in> set (snd (on_build_progress env d))"
  shows "issued_under (JStr ''flow.build.progress'') (js_prop (js_prop d ''data'') ''event'') c"
  using assms
  by (auto simp: on_build_progress_def Let_def split: if_splits sum.splits)

lemma dispatch_message_routes:
  assumes "c \<in> set (snd (dispatch_message env d))"
  shows "issued_under (js_prop d ''type'') (js_prop (js_prop d ''data'') ''event'') c"
proof (cases "js_prop d ''type'' = JStr ''flow.build.progress''")
  case True
  with assms have "c \<in> set (snd (on_build_progress env d))"
    by (simp add: dispatch_message_def Let_def split: if_splits)
  from on_build_progress_routes [OF this] True show ?thesis
    by simp
next
  case False
  with assms show ?thesis
    by (auto simp: dispatch_message_def Let_def split: if_splits)
qed




text \<open>
  C5, against the claim as stated: NodeStatus shows a tooltip of its own for a node
  whose status is \<open>INACTIVE\<close>, and it withholds the success mark from a node whose
  status is \<open>TO_BUILD\<close> even after a valid run, while it grants it to an \<open>INACTIVE\<close>
  one. Neither status is one of building, built and error.
\<close>

theorem node_status_handles_inactive_and_to_build:
  "tooltip_content (Some INACTIVE) (Some \<lparr>valid = True, duration = Some ''2 ms''\<rparr>) '''' None
     = STATUS_INACTIVE
   \<and> \<not> conditionSuccess (Some TO_BUILD) (Some \<lparr>valid = True, duration = Some ''2 ms''\<rparr>)
   \<and> conditionSuccess (Some INACTIVE) (Some \<lparr>valid = True, duration = Some ''2 ms''\<rparr>)
   \<and> INACTIVE \<notin> {BUILDING, BUILT, ERROR}
   \<and> TO_BUILD \<notin> {BUILDING, BUILT, ERROR}"
  by (simp add: tooltip_content_def conditionSuccess_def)

text \<open>
  C5 as amended. Every build status that the WebSocket handler passes to
  \<open>updateBuildStatus\<close> of the flow store is one of building, built and error; the
  status of a node as NodeStatus receives it can also be to-build, inactive or unset.
\<close>

theorem pushed_build_status_is_building_built_or_error:
  "UpdateBuildStatus ids s \<in> set (snd (handleWebSocketMessage env parsed)) \<longrightarrow>
     s \<in> {BUILDING, BUILT, ERROR}"
proof
  assume pushed: "UpdateBuildStatus ids s \<in> set (snd (handleWebSocketMessage env parsed))"
  then obtain d where "parsed = Inr d"
    by (cases parsed) (simp_all add: handleWebSocketMessage_def)
  with pushed have "UpdateBuildStatus ids s \<in> set (snd (dispatch_message env d))"
    by (simp add: handleWebSocketMessage_def)
  from dispatch_message_routes [OF this] show "s \<in> {BUILDING, BUILT, ERROR}"
    by auto
qed

theorem pushed_build_status_is_building_built_or_error_witness:
  "UpdateBuildStatus [JStr ''vertex-1''] ERROR
     \<in> set (snd (handleWebSocketMessage
                   \<lparr>has_audio_context = False, is_playing = False, store_edges = [],
                    audio_ok = (\<lambda>x. True)\<rparr>
                   (Inr (JObj [(''type'', JStr ''flow.build.progress''),
                               (''data'', JObj [(''event'', JStr ''error''),
                                               (''vertex_id'', JStr ''vertex-1'')])]))))
   \<and> ERROR \<in> {BUILDING, BUILT, ERROR}"
proof -
  note claim = pushed_build_status_is_building_built_or_error
  have pushed:
    "UpdateBuildStatus [JStr ''vertex-1''] ERROR
     \<in> set (snd (handleWebSocketMessage
                   \<lparr>has_audio_context = False, is_playing = False, store_edges = [],
                    audio_ok = (\<lambda>x. True)\<rparr>
                   (Inr (JObj [(''type'', JStr ''flow.build.progress''),
                               (''data'', JObj [(''event'', JStr ''error''),
                                               (''vertex_id'', JStr ''vertex-1'')])]))))"
    by (simp add: handleWebSocketMessage_def dispatch_message_def on_build_progress_def
        js_prop_def nullish_def Let_def)
  from claim [THEN mp, OF pushed] pushed show ?thesis
    by (intro conjI)
qed



section \<open>Properties of the slider\<close>

text \<open>
  What the other paths commit. On blur of the text field above the slider, an input
  that does not parse as a number commits nothing, and an input that parses commits
  the parsed number brought between the bounds, which is a finite value between them
  whenever the lower bound is not above the upper one. An option button commits a
  value between the bounds as well. Without a range specification the bounds are
  \<open>-2\<close> and \<open>2\<close>.
\<close>

lemma slider_default_bounds:
  "slider_min (None :: 'a RangeSpecType_scheme option) = - 2"
  "slider_max (None :: 'a RangeSpecType_scheme option) = 2"
  by (simp_all add: slider_min_def slider_max_def)

lemma handleInputBlur_unparsed:
  assumes "parseFloat (inputValue local) = NaN"
  shows "fst (handleInputBlur parseFloat toFixed2 rangeSpec shown local) = []"
  using assms by (simp add: handleInputBlur_def Let_def isNaN_def)

lemma handleInputBlur_parsed:
  assumes "parseFloat (inputValue local) = Fin x"
  shows "fst (handleInputBlur parseFloat toFixed2 rangeSpec shown local)
           = [HandleOnNewValue
                (NumberValue (Fin (min (max x (slider_min rangeSpec)) (slider_max rangeSpec))))
                False]"
  using assms by (simp add: handleInputBlur_def Let_def isNaN_def math_max_def math_min_def)

lemma handleInputBlur_commits_within_bounds:
  assumes "parseFloat (inputValue local) \<noteq> NaN"
    and "slider_min rangeSpec \<le> slider_max rangeSpec"
  shows "\<exists>c. fst (handleInputBlur parseFloat toFixed2 rangeSpec shown local)
               = [HandleOnNewValue (NumberValue (Fin c)) False]
             \<and> slider_min rangeSpec \<le> c \<and> c \<le> slider_max rangeSpec"
  using assms
  by (cases "parseFloat (inputValue local)")
     (simp_all add: handleInputBlur_def Let_def isNaN_def math_max_def math_min_def)

lemma handleOptionClick_commits_within_bounds:
  assumes "option < 4"
    and "slider_min rangeSpec \<le> slider_max rangeSpec"
  shows "handleOptionClick option rangeSpec
           = [HandleOnNewValue
                (NumberValue
                   (Fin (slider_min rangeSpec +
                         (slider_max rangeSpec - slider_min rangeSpec) * PERCENTAGES ! option)))
                False]
         \<and> slider_min rangeSpec
             \<le> slider_min rangeSpec +
                 (slider_max rangeSpec - slider_min rangeSpec) * PERCENTAGES ! option
         \<and> slider_min rangeSpec +
               (slider_max rangeSpec - slider_min rangeSpec) * PERCENTAGES ! option
             \<le> slider_max rangeSpec"
proof -
  from assms(1) consider "option = 0" | "option = 1" | "option = 2" | "option = 3"
    by linarith
  then have share: "0 \<le> PERCENTAGES ! option \<and> PERCENTAGES ! option \<le> 1"
    by cases (simp_all add: PERCENTAGES_def)
  from assms(2) have width: "0 \<le> slider_max rangeSpec - slider_min rangeSpec"
    by simp
  from width share have low:
    "0 \<le> (slider_max rangeSpec - slider_min rangeSpec) * PERCENTAGES ! option"
    by simp
  from width share have high:
    "(slider_max rangeSpec - slider_min rangeSpec) * PERCENTAGES ! option
       \<le> slider_max rangeSpec - slider_min rangeSpec"
    by (simp add: mult_left_le)
  from assms(1) have commit:
    "handleOptionClick option rangeSpec
           = [HandleOnNewValue
                (NumberValue
                   (Fin (slider_min rangeSpec +
                         (slider_max rangeSpec - slider_min rangeSpec) * PERCENTAGES ! option)))
                False]"
    by (simp add: handleOptionClick_def PERCENTAGES_def)
  from commit low high show ?thesis
    by simp
qed

lemma sliderInput_onChange_commits_parsed:
  "sliderInput_onChange parseFloat target_value
     = [HandleOnNewValue (NumberValue (parseFloat target_value)) False]"
  by (simp add: sliderInput_onChange_def handleChange_def)

text \<open>
  C7 (every value the slider commits is brought between the bounds). \<open>handleChange\<close>
  commits the number it is given as it is, and the \<open>sliderInput\<close> field hands it
  whatever \<open>parseFloat\<close> made of the text. With no range specification, so with the
  bounds \<open>-2\<close> and \<open>2\<close>, the text \<open>100\<close> commits \<open>100\<close>, which is outside the bounds, and
  an empty field commits \<open>NaN\<close>; the blur handler of the other text field clamps the
  parsed number and commits nothing for \<open>NaN\<close>.
\<close>

theorem slider_input_commits_value_outside_range:
  "handleChange [Fin 100] = [HandleOnNewValue (NumberValue (Fin 100)) False]
   \<and> \<not> (slider_min (None :: RangeSpecType option) \<le> 100
        \<and> 100 \<le> slider_max (None :: RangeSpecType option))
   \<and> handleChange [NaN] = [HandleOnNewValue (NumberValue NaN) False]"
  by (simp add: handleChange_def slider_min_def slider_max_def)

end
